theory Spec2Isabelle
  imports Main "HOL-Library.Multiset"
begin

section \<open>Go strings as byte lists\<close>

text \<open>
  A Go \<open>string\<close> is a sequence of bytes; it is modelled as \<^typ>\<open>string\<close> (a list of
  8-bit characters), so \<^const>\<open>length\<close> is Go's \<open>len\<close> and \<^const>\<open>take\<close>/\<^const>\<open>drop\<close>
  are the slices \<open>s[:n]\<close> and \<open>s[n:]\<close> for \<open>n \<le> len(s)\<close>.
\<close>

definition newline :: char where
  "newline = CHR 0x0A"

text \<open>\<open>strings.HasPrefix\<close>.\<close>

fun HasPrefix :: "string \<Rightarrow> string \<Rightarrow> bool" where
  "HasPrefix s [] = True"
| "HasPrefix [] (p # ps) = False"
| "HasPrefix (c # cs) (p # ps) = (c = p \<and> HasPrefix cs ps)"

text \<open>\<open>strings.Index\<close>: the byte offset of the first occurrence, \<open>None\<close> for Go's \<open>-1\<close>.\<close>

fun Index :: "string \<Rightarrow> string \<Rightarrow> nat option" where
  "Index [] sub = (if sub = [] then Some 0 else None)"
| "Index (c # cs) sub =
     (if HasPrefix (c # cs) sub then Some 0
      else (case Index cs sub of None \<Rightarrow> None | Some i \<Rightarrow> Some (Suc i)))"

text \<open>\<open>strings.Contains\<close>.\<close>

definition Contains :: "string \<Rightarrow> string \<Rightarrow> bool" where
  "Contains s sub = (Index s sub \<noteq> None)"

text \<open>\<open>strings.IndexByte\<close>.\<close>

fun IndexByte :: "string \<Rightarrow> char \<Rightarrow> nat option" where
  "IndexByte [] b = None"
| "IndexByte (c # cs) b =
     (if c = b then Some 0
      else (case IndexByte cs b of None \<Rightarrow> None | Some i \<Rightarrow> Some (Suc i)))"

text \<open>
  \<open>strings.Split(s, sep)\<close> for a one-byte separator (the source only splits on
  \<open>"\n"\<close> and \<open>":"\<close>): the pieces between the separators, one piece more than there
  are separators, so the empty string gives one empty piece. \<open>Split_from cur s sep\<close>
  is the scan with \<open>cur\<close> the piece collected so far.
\<close>

fun Split_from :: "string \<Rightarrow> string \<Rightarrow> char \<Rightarrow> string list" where
  "Split_from cur [] sep = [cur]"
| "Split_from cur (c # cs) sep =
     (if c = sep then cur # Split_from [] cs sep else Split_from (cur @ [c]) cs sep)"

definition Split :: "string \<Rightarrow> char \<Rightarrow> string list" where
  "Split s sep = Split_from [] s sep"

text \<open>\<open>strings.Join\<close>.\<close>

fun Join :: "string list \<Rightarrow> string \<Rightarrow> string" where
  "Join [] sep = []"
| "Join [w] sep = w"
| "Join (w # v # ws) sep = w @ sep @ Join (v # ws) sep"

text \<open>\<open>strings.TrimRight\<close> for a cutset of one byte and \<open>strings.LastIndexByte\<close>.\<close>

definition TrimRight :: "string \<Rightarrow> char \<Rightarrow> string" where
  "TrimRight s b = rev (dropWhile (\<lambda>c. c = b) (rev s))"

definition LastIndexByte :: "string \<Rightarrow> char \<Rightarrow> nat option" where
  "LastIndexByte s b =
     (case IndexByte (rev s) b of None \<Rightarrow> None | Some i \<Rightarrow> Some (length s - 1 - i))"

subsection \<open>White space\<close>

text \<open>
  \<open>strings.TrimSpace\<close> and \<open>strings.Fields\<close> work on the runes of the UTF-8 text and
  ask \<open>unicode.IsSpace\<close>. \<open>space_width s\<close> is the number of bytes of the white-space
  rune that \<open>s\<close> starts with, and 0 when it starts with none: the six ASCII spaces
  (tab, line feed, vertical tab, form feed, carriage return, space), U+0085 and
  U+00A0 (two bytes each), and U+1680, U+2000 to U+200A, U+2028, U+2029, U+202F,
  U+205F and U+3000 (three bytes each). The first byte of each of these encodings is
  never a continuation byte of another rune, so looking for them byte by byte finds
  exactly the runes that Go's decoder reports as white space.
\<close>

definition ascii_space :: "char \<Rightarrow> bool" where
  "ascii_space c = (c = CHR 0x09 \<or> c = CHR 0x0A \<or> c = CHR 0x0B \<or> c = CHR 0x0C
      \<or> c = CHR 0x0D \<or> c = CHR 0x20)"

definition space3 :: "char \<Rightarrow> char \<Rightarrow> char \<Rightarrow> bool" where
  "space3 a b c =
     ((a = CHR 0xE1 \<and> b = CHR 0x9A \<and> c = CHR 0x80)
    \<or> (a = CHR 0xE2 \<and> b = CHR 0x80 \<and> (0x80::nat) \<le> of_char c \<and> of_char c \<le> (0x8A::nat))
    \<or> (a = CHR 0xE2 \<and> b = CHR 0x80 \<and> (c = CHR 0xA8 \<or> c = CHR 0xA9 \<or> c = CHR 0xAF))
    \<or> (a = CHR 0xE2 \<and> b = CHR 0x81 \<and> c = CHR 0x9F)
    \<or> (a = CHR 0xE3 \<and> b = CHR 0x80 \<and> c = CHR 0x80))"

definition space2 :: "char \<Rightarrow> char \<Rightarrow> bool" where
  "space2 a b = (a = CHR 0xC2 \<and> (b = CHR 0x85 \<or> b = CHR 0xA0))"

fun space_width :: "string \<Rightarrow> nat" where
  "space_width [] = 0"
| "space_width [a] = (if ascii_space a then 1 else 0)"
| "space_width [a, b] = (if ascii_space a then 1 else if space2 a b then 2 else 0)"
| "space_width (a # b # c # cs) =
     (if ascii_space a then 1 else if space2 a b then 2 else if space3 a b c then 3 else 0)"

text \<open>The same question at the end of the string, for trimming on the right.\<close>

definition space_width_end :: "string \<Rightarrow> nat" where
  "space_width_end s =
     (let n = length s in
      if 1 \<le> n \<and> ascii_space (s ! (n - 1)) then 1
      else if 2 \<le> n \<and> space2 (s ! (n - 2)) (s ! (n - 1)) then 2
      else if 3 \<le> n \<and> space3 (s ! (n - 3)) (s ! (n - 2)) (s ! (n - 1)) then 3
      else 0)"

fun TrimLeftSpace :: "string \<Rightarrow> string" where
  "TrimLeftSpace [] = []"
| "TrimLeftSpace (c # cs) =
     (case space_width (c # cs) of
        0 \<Rightarrow> c # cs
      | Suc k \<Rightarrow> TrimLeftSpace (drop k cs))"

function TrimRightSpace :: "string \<Rightarrow> string" where
  "TrimRightSpace s =
     (if space_width_end s = 0 then s
      else TrimRightSpace (take (length s - space_width_end s) s))"
  by pat_completeness auto
termination
  by (relation "measure length") (auto simp: space_width_end_def Let_def split: if_splits)

declare TrimRightSpace.simps [simp del]

text \<open>\<open>strings.TrimSpace\<close>.\<close>

definition TrimSpace :: "string \<Rightarrow> string" where
  "TrimSpace s = TrimRightSpace (TrimLeftSpace s)"

text \<open>
  \<open>strings.Fields\<close>: the maximal runs of bytes that hold no white-space rune.
  \<open>Fields_from cur s\<close> is the scan with \<open>cur\<close> the field collected so far.
\<close>

fun Fields_from :: "string \<Rightarrow> string \<Rightarrow> string list" where
  "Fields_from cur [] = (if cur = [] then [] else [cur])"
| "Fields_from cur (c # cs) =
     (case space_width (c # cs) of
        0 \<Rightarrow> Fields_from (cur @ [c]) cs
      | Suc k \<Rightarrow> (if cur = [] then [] else [cur]) @ Fields_from [] (drop k cs))"

definition Fields :: "string \<Rightarrow> string list" where
  "Fields s = Fields_from [] s"

subsection \<open>Decimal numbers\<close>

definition isDigit :: "char \<Rightarrow> bool" where
  "isDigit c = ((48::nat) \<le> of_char c \<and> of_char c \<le> (57::nat))"

definition digit_val :: "char \<Rightarrow> nat" where
  "digit_val c = of_char c - 48"

datatype NumError = ErrSyntax | ErrRange

text \<open>
  The digit loop of \<open>strconv.ParseUint(s, 10, 64)\<close>: a byte that is no digit is a
  syntax error with value 0; a value past \<open>2^64 - 1 = 18446744073709551615\<close> is a
  range error with that maximum, raised at the digit that overflows.
\<close>

fun ParseUint_loop :: "nat \<Rightarrow> string \<Rightarrow> nat \<times> NumError option" where
  "ParseUint_loop n [] = (n, None)"
| "ParseUint_loop n (c # cs) =
     (if \<not> isDigit c then (0, Some ErrSyntax)
      else if 18446744073709551616 \<le> n * 10 + digit_val c
        then (18446744073709551615, Some ErrRange)
      else ParseUint_loop (n * 10 + digit_val c) cs)"

text \<open>
  \<open>strconv.Atoi\<close> on a 64-bit platform: an optional sign, then decimal digits. The
  result is the value and the error; the value is 0 on a syntax error and the
  nearest end of the \<open>int64\<close> range (\<open>2^63 = 9223372036854775808\<close>) on a range
  error.
\<close>

definition Atoi :: "string \<Rightarrow> int \<times> NumError option" where
  "Atoi s =
     (if s = [] then (0, Some ErrSyntax)
      else
        let neg = (hd s = CHR ''-'');
            body = (if hd s = CHR ''-'' \<or> hd s = CHR ''+'' then tl s else s)
        in if body = [] then (0, Some ErrSyntax)
           else (case ParseUint_loop 0 body of
                   (un, Some ErrSyntax) \<Rightarrow> (0, Some ErrSyntax)
                 | (un, _) \<Rightarrow>
                     if \<not> neg \<and> 9223372036854775808 \<le> un
                       then (9223372036854775807, Some ErrRange)
                     else if neg \<and> 9223372036854775808 < un
                       then (- 9223372036854775808, Some ErrRange)
                     else (if neg then - int un else int un, None)))"

text \<open>\<open>fmt.Sprintf("%d", n)\<close> and \<open>fmt.Sprintf("%02d", n)\<close>.\<close>

definition digit_char :: "nat \<Rightarrow> char" where
  "digit_char n = ''0123456789'' ! n"

fun dec_nat :: "nat \<Rightarrow> string" where
  "dec_nat n =
     (if n < 10 then [digit_char n]
      else dec_nat (n div 10) @ [digit_char (n mod 10)])"

declare dec_nat.simps [simp del]

definition fmt_d :: "int \<Rightarrow> string" where
  "fmt_d n = (if n < 0 then CHR ''-'' # dec_nat (nat (- n)) else dec_nat (nat n))"


section \<open>Durations (types.go)\<close>

text \<open>
  A \<open>time.Duration\<close> is a signed 64-bit count of nanoseconds, modelled as an
  \<^typ>\<open>int\<close>. \<open>int(duration.Seconds())\<close> converts through \<open>float64\<close> and truncates
  toward zero; \<open>whole_seconds\<close> is that truncation. It is exact for every duration that
  is a whole number of seconds (all that \<open>ParseEtime\<close> produces) and for every
  duration shorter than \<open>2^24\<close> seconds; the rounding of \<open>float64\<close> on longer
  durations with a fractional part is outside the model.
\<close>

definition Second :: int where
  "Second = 1000000000"



section \<open>Process discovery (the process-table scanner)\<close>

text \<open>
  Go's \<open>int\<close> and \<open>time.Duration\<close> are 64-bit two's-complement integers: every
  \<open>+\<close> and \<open>*\<close> wraps. \<open>wrap64\<close> reduces an integer to that range
  (\<open>2^63 = 9223372036854775808\<close>, \<open>2^64 = 18446744073709551616\<close>).
\<close>

definition wrap64 :: "int \<Rightarrow> int" where
  "wrap64 x = (x + 9223372036854775808) mod 18446744073709551616 - 9223372036854775808"

text \<open>
  \<open>ParseEtime\<close>: the elapsed time of \<open>ps\<close> as a duration in nanoseconds. The day
  count is kept only when \<open>Atoi\<close> succeeds; the other fields take whatever value
  \<open>Atoi\<close> returns, its error ignored. A text with more than three colon-separated
  parts matches no case of the \<open>switch\<close> and leaves the three fields 0.
\<close>

definition ParseEtime :: "string \<Rightarrow> int" where
  "ParseEtime etime0 =
     (let etime1 = TrimSpace etime0;
          idx = IndexByte etime1 CHR ''-'';
          days = (case idx of
                    None \<Rightarrow> 0
                  | Some i \<Rightarrow> (case Atoi (take i etime1) of (d, None) \<Rightarrow> d | (d, Some e) \<Rightarrow> 0));
          etime = (case idx of None \<Rightarrow> etime1 | Some i \<Rightarrow> drop (i + 1) etime1);
          parts = Split etime CHR '':'';
          hours = (if length parts = 3 then fst (Atoi (parts ! 0)) else 0);
          minutes = (if length parts = 3 then fst (Atoi (parts ! 1))
                     else if length parts = 2 then fst (Atoi (parts ! 0)) else 0);
          seconds = (if length parts = 3 then fst (Atoi (parts ! 2))
                     else if length parts = 2 then fst (Atoi (parts ! 1))
                     else if length parts = 1 then fst (Atoi (parts ! 0)) else 0);
          totalSeconds = wrap64 (wrap64 (wrap64 (wrap64 (days * 86400) + wrap64 (hours * 3600))
                                   + wrap64 (minutes * 60)) + seconds)
      in wrap64 (totalSeconds * Second))"

text \<open>
  The decimal value of a digit string and the test for one, for stating what
  \<open>ParseEtime\<close> returns on the shapes \<open>SS\<close>, \<open>MM:SS\<close>, \<open>HH:MM:SS\<close> and \<open>D-HH:MM:SS\<close>.
\<close>

definition digits_val :: "string \<Rightarrow> nat" where
  "digits_val s = fold (\<lambda>c a. a * 10 + digit_val c) s 0"

definition is_number :: "string \<Rightarrow> bool" where
  "is_number s = (s \<noteq> [] \<and> list_all isDigit s)"

text \<open>\<open>psEntry\<close>: one line of the \<open>ps\<close> output.\<close>

record psEntry =
  PID :: int
  Etime :: string
  TTY :: string
  Command :: string

text \<open>
  \<open>ParsePS\<close>: the loop over the lines of \<open>ps -eo pid,etime,tty,command\<close>, with
  \<open>entries\<close> the slice built so far. Every \<open>continue\<close> of the source is a branch
  that goes on with the slice unchanged.
\<close>

fun ParsePS_loop :: "psEntry list \<Rightarrow> string list \<Rightarrow> psEntry list" where
  "ParsePS_loop entries [] = entries"
| "ParsePS_loop entries (line0 # lines) =
     (let line = TrimSpace line0 in
      if line = [] \<or> HasPrefix line ''PID'' then ParsePS_loop entries lines
      else if \<not> Contains line ''claude'' then ParsePS_loop entries lines
      else if Contains line ''grep'' then ParsePS_loop entries lines
      else
        let fields = Fields line in
        if length fields < 4 then ParsePS_loop entries lines
        else (case Atoi (fields ! 0) of
                (pid, Some err) \<Rightarrow> ParsePS_loop entries lines
              | (pid, None) \<Rightarrow>
                  ParsePS_loop
                    (entries @ [\<lparr>PID = pid, Etime = fields ! 1, TTY = fields ! 2,
                                 Command = Join (drop 3 fields) '' ''\<rparr>])
                    lines))"

definition ParsePS :: "string \<Rightarrow> psEntry list" where
  "ParsePS output = ParsePS_loop [] (Split output newline)"








subsection \<open>Paths\<close>

text \<open>
  \<open>filepath.Clean\<close> on a Unix path: empty and \<open>.\<close> elements go, a \<open>..\<close> element
  removes the element before it (at the root it is dropped, at the start of a relative
  path it stays), and the empty result is \<open>.\<close>.
\<close>

definition clean_step :: "bool \<Rightarrow> string \<Rightarrow> string list \<Rightarrow> string list" where
  "clean_step rooted elem stack =
     (if elem = ''..'' then
        (if stack \<noteq> [] \<and> last stack \<noteq> ''..'' then butlast stack
         else if rooted then stack
         else stack @ [''..''])
      else stack @ [elem])"

definition Clean :: "string \<Rightarrow> string" where
  "Clean path =
     (if path = [] then ''.''
      else
        let rooted = (hd path = CHR ''/'');
            elems = filter (\<lambda>e. e \<noteq> [] \<and> e \<noteq> ''.'') (Split path CHR ''/'');
            out = (if rooted then ''/'' else []) @ Join (fold (clean_step rooted) elems []) ''/''
        in if out = [] then ''.'' else out)"

text \<open>\<open>filepath.Join\<close>: the non-empty elements, joined by slashes and cleaned.\<close>

definition JoinPath :: "string list \<Rightarrow> string" where
  "JoinPath elems =
     (if filter (\<lambda>e. e \<noteq> []) elems = [] then []
      else Clean (Join (filter (\<lambda>e. e \<noteq> []) elems) ''/''))"

text \<open>\<open>filepath.Base\<close>: the last element of the path, trailing slashes removed first.\<close>

definition Base :: "string \<Rightarrow> string" where
  "Base path =
     (if path = [] then ''.''
      else
        let p = TrimRight path CHR ''/'' in
        if p = [] then ''/''
        else (case LastIndexByte p CHR ''/'' of None \<Rightarrow> p | Some i \<Rightarrow> drop (i + 1) p))"

text \<open>\<open>filepath.Dir\<close>: all but the last element of the path, cleaned.\<close>

definition Dir :: "string \<Rightarrow> string" where
  "Dir path =
     (case LastIndexByte path CHR ''/'' of
        None \<Rightarrow> Clean []
      | Some i \<Rightarrow> Clean (take (i + 1) path))"

definition ShortProjectName :: "string \<Rightarrow> string" where
  "ShortProjectName fullPath0 =
     (let fullPath = TrimRight fullPath0 CHR ''/'';
          name = Base fullPath;
          parent = Base (Dir fullPath)
      in if parent = ''/'' \<or> parent = ''.'' \<or> parent = [] then name
         else parent @ ''/'' @ name)"

definition EncodePath :: "string \<Rightarrow> string" where
  "EncodePath path = map (\<lambda>c. if c = CHR ''/'' \<or> c = CHR ''.'' then CHR ''-'' else c) path"

subsection \<open>Sessions (types.go)\<close>

text \<open>
  The states of a session. \<open>types.go\<close> declares \<open>StateActive\<close>, \<open>StateWaiting\<close> and
  \<open>StateIdle\<close>; \<open>metadata.go\<close> and its tests also use \<open>StateInput\<close>.
\<close>

datatype State = StateActive | StateWaiting | StateInput | StateIdle

record Source =
  Type :: string

record Session =
  session_PID :: int
  CWD :: string
  State :: State
  Source :: Source
  Project :: string
  Topic :: string
  Branch :: string
  Duration :: int
  Messages :: int

record ideLockFile =
  lock_PID :: int
  WorkspaceFolders :: "string list"
  IDEName :: string
  Transport :: string

subsection \<open>Working directories\<close>

text \<open>
  The loop of \<open>BatchResolveCWDs\<close> over the lines of \<open>lsof -Fn\<close>: a line that starts
  with \<open>p\<close> sets the current process id when the rest is a number, a line that starts
  with \<open>n\<close> is the path of the current process.
\<close>

fun lsof_loop :: "string list \<Rightarrow> int \<Rightarrow> (int \<Rightarrow> string option) \<Rightarrow> (int \<Rightarrow> string option)" where
  "lsof_loop [] currentPID cwdMap = cwdMap"
| "lsof_loop (line # lines) currentPID cwdMap =
     (if line = [] then lsof_loop lines currentPID cwdMap
      else if hd line = CHR ''p'' then
        (case Atoi (tl line) of
           (pid, None) \<Rightarrow> lsof_loop lines pid cwdMap
         | (pid, Some err) \<Rightarrow> lsof_loop lines currentPID cwdMap)
      else if hd line = CHR ''n'' then
        (if currentPID \<noteq> 0 then lsof_loop lines currentPID (cwdMap(currentPID \<mapsto> tl line))
         else lsof_loop lines currentPID cwdMap)
      else lsof_loop lines currentPID cwdMap)"

text \<open>
  What \<open>BatchResolveCWDs\<close> asks of the machine: whether it runs Linux, the target of
  \<open>/proc/<pid>/cwd\<close> there, and elsewhere the output of \<open>lsof\<close> for a comma-separated
  list of process ids (\<open>None\<close> when the command fails).
\<close>

record cwd_sources =
  is_linux :: bool
  readlink_cwd :: "int \<Rightarrow> string option"
  run_lsof :: "string \<Rightarrow> string option"

definition BatchResolveCWDs :: "cwd_sources \<Rightarrow> psEntry list \<Rightarrow> (int \<Rightarrow> string option)" where
  "BatchResolveCWDs os entries =
     (if is_linux os then
        fold (\<lambda>entry cwdMap.
                case readlink_cwd os (PID entry) of
                  None \<Rightarrow> cwdMap
                | Some link \<Rightarrow> cwdMap(PID entry \<mapsto> link))
             entries Map.empty
      else if entries = [] then Map.empty
      else (case run_lsof os (Join (map (\<lambda>entry. fmt_d (PID entry)) entries) '','') of
              None \<Rightarrow> Map.empty
            | Some out \<Rightarrow> lsof_loop (Split out newline) 0 Map.empty))"

subsection \<open>Sessions started from a terminal and from an IDE\<close>

text \<open>
  The loop of \<open>discoverCLISessions\<close>: \<open>seenCWDs\<close> is the set of working directories
  already claimed (the keys of the Go map, which only ever holds \<open>true\<close>), \<open>sessions\<close>
  the slice built so far. The loop returns both: the map is shared with the caller.
\<close>

fun discoverCLISessions_loop ::
  "psEntry list \<Rightarrow> (int \<Rightarrow> string option) \<Rightarrow> string set \<Rightarrow> Session list
     \<Rightarrow> Session list \<times> string set" where
  "discoverCLISessions_loop [] cwdMap seenCWDs sessions = (sessions, seenCWDs)"
| "discoverCLISessions_loop (entry # entries) cwdMap seenCWDs sessions =
     (if TTY entry = ''??'' then discoverCLISessions_loop entries cwdMap seenCWDs sessions
      else if Fields (Command entry) = []
        then discoverCLISessions_loop entries cwdMap seenCWDs sessions
      else if Base (Fields (Command entry) ! 0) \<noteq> ''claude''
        then discoverCLISessions_loop entries cwdMap seenCWDs sessions
      else (case cwdMap (PID entry) of
              None \<Rightarrow> discoverCLISessions_loop entries cwdMap seenCWDs sessions
            | Some cwd \<Rightarrow>
                if cwd = [] then discoverCLISessions_loop entries cwdMap seenCWDs sessions
                else if cwd \<in> seenCWDs
                  then discoverCLISessions_loop entries cwdMap seenCWDs sessions
                else discoverCLISessions_loop entries cwdMap (insert cwd seenCWDs)
                       (sessions @ [\<lparr>session_PID = PID entry, CWD = cwd, State = StateActive,
                          Source = \<lparr>Type = ''CLI''\<rparr>, Project = ShortProjectName cwd,
                          Topic = [], Branch = [], Duration = ParseEtime (Etime entry),
                          Messages = 0\<rparr>])))"

definition discoverCLISessions ::
  "psEntry list \<Rightarrow> (int \<Rightarrow> string option) \<Rightarrow> string set \<Rightarrow> Session list \<times> string set" where
  "discoverCLISessions entries cwdMap seenCWDs =
     discoverCLISessions_loop entries cwdMap seenCWDs []"

definition shortenIDEName :: "string \<Rightarrow> string" where
  "shortenIDEName fullName =
     (if Contains fullName ''Visual Studio Code'' then ''VSCode''
      else if Contains fullName ''Cursor'' then ''Cursor''
      else if fullName = [] then ''IDE''
      else fullName)"

text \<open>
  The inner loop of \<open>discoverIDESessions\<close>: the first process without a terminal
  whose working directory starts with the workspace folder, if there is one.
\<close>

fun find_workspace_process ::
  "psEntry list \<Rightarrow> (int \<Rightarrow> string option) \<Rightarrow> string \<Rightarrow> psEntry option" where
  "find_workspace_process [] cwdMap workspace = None"
| "find_workspace_process (entry # entries) cwdMap workspace =
     (if TTY entry \<noteq> ''??'' then find_workspace_process entries cwdMap workspace
      else (case cwdMap (PID entry) of
              None \<Rightarrow> find_workspace_process entries cwdMap workspace
            | Some cwd \<Rightarrow>
                if HasPrefix cwd workspace then Some entry
                else find_workspace_process entries cwdMap workspace))"

text \<open>
  What \<open>discoverIDESessions\<close> asks of the machine: the lock files that
  \<open>filepath.Glob\<close> finds in the \<open>ide\<close> directory, in its order, each one the decoded
  record or \<open>None\<close> when the file cannot be read or is no JSON of that shape; and
  whether a process is alive (signal 0 is delivered).
\<close>

record ide_sources =
  lock_files :: "ideLockFile option list"
  isProcessAlive :: "int \<Rightarrow> bool"

fun discoverIDESessions_loop ::
  "(int \<Rightarrow> bool) \<Rightarrow> ideLockFile option list \<Rightarrow> psEntry list \<Rightarrow> (int \<Rightarrow> string option)
     \<Rightarrow> Session list \<Rightarrow> Session list" where
  "discoverIDESessions_loop alive [] entries cwdMap sessions = sessions"
| "discoverIDESessions_loop alive (None # lockFiles) entries cwdMap sessions =
     discoverIDESessions_loop alive lockFiles entries cwdMap sessions"
| "discoverIDESessions_loop alive (Some lockFile # lockFiles) entries cwdMap sessions =
     (if lock_PID lockFile = 0 \<or> WorkspaceFolders lockFile = []
        then discoverIDESessions_loop alive lockFiles entries cwdMap sessions
      else if \<not> alive (lock_PID lockFile)
        then discoverIDESessions_loop alive lockFiles entries cwdMap sessions
      else
        let workspace = WorkspaceFolders lockFile ! 0;
            ideName = shortenIDEName (IDEName lockFile)
        in (case find_workspace_process entries cwdMap workspace of
              None \<Rightarrow> discoverIDESessions_loop alive lockFiles entries cwdMap sessions
            | Some entry \<Rightarrow>
                discoverIDESessions_loop alive lockFiles entries cwdMap
                  (sessions @ [\<lparr>session_PID = PID entry, CWD = workspace, State = StateActive,
                     Source = \<lparr>Type = ideName\<rparr>, Project = ShortProjectName workspace,
                     Topic = [], Branch = [], Duration = ParseEtime (Etime entry),
                     Messages = 0\<rparr>])))"

definition discoverIDESessions ::
  "ide_sources \<Rightarrow> psEntry list \<Rightarrow> (int \<Rightarrow> string option) \<Rightarrow> Session list" where
  "discoverIDESessions ide entries cwdMap =
     discoverIDESessions_loop (isProcessAlive ide) (lock_files ide) entries cwdMap []"

section \<open>Files and transcripts (metadata.go)\<close>

text \<open>
  The file system as the functions of \<open>metadata.go\<close> see it: a path leads to a file
  with its bytes and its modification time (nanoseconds since the epoch), or to
  nothing. \<open>os.Open\<close>, \<open>os.ReadFile\<close> and \<open>os.Stat\<close> fail exactly on the paths that
  lead to nothing; a read of an open file does not fail.
\<close>

record diskfile =
  content :: string
  modTime :: int

type_synonym filesystem = "string \<Rightarrow> diskfile option"

text \<open>
  The loop of \<open>ReadLastLine\<close> over the bytes \<open>data\<close> of the open file: \<open>offset\<close> is
  the position down to which the file has been read and \<open>buf\<close> the bytes read so far.
  Each round reads the 4096 bytes below \<open>offset\<close> (fewer at the start of the file) with
  \<open>ReadAt\<close> and puts them in front of \<open>buf\<close>. The result is the line found together
  with the offset at which the loop stopped: the bytes below it were never read.
\<close>

function ReadLastLine_loop :: "string \<Rightarrow> nat \<Rightarrow> string \<Rightarrow> string \<times> nat" where
  "ReadLastLine_loop data offset buf =
     (if offset > 0 then
        (let readSize = (if 4096 > offset then offset else 4096);
             offset' = offset - readSize;
             chunk = take readSize (drop offset' data);
             buf' = chunk @ buf;
             content = TrimRight buf' newline
         in (case LastIndexByte content newline of
               Some lastNewline \<Rightarrow> (drop (lastNewline + 1) content, offset')
             | None \<Rightarrow> ReadLastLine_loop data offset' buf'))
      else (TrimRight buf newline, offset))"
  by pat_completeness auto
termination
  by (relation "measure (\<lambda>(data, offset, buf). offset)") auto

declare ReadLastLine_loop.simps [simp del]

text \<open>
  \<open>ReadLastLine\<close>: the empty string when the file cannot be opened or is empty,
  otherwise what the loop finds, starting at the end of the file.
\<close>

definition ReadLastLine :: "filesystem \<Rightarrow> string \<Rightarrow> string" where
  "ReadLastLine fs filePath =
     (case fs filePath of
        None \<Rightarrow> []
      | Some f \<Rightarrow>
          if length (content f) = 0 then []
          else fst (ReadLastLine_loop (content f) (length (content f)) []))"

text \<open>
  The words of the specification: the last line of a text is what follows its last
  newline (all of it when it has none); a single trailing newline is trimmed.
\<close>

definition last_line :: "string \<Rightarrow> string" where
  "last_line s = rev (takeWhile (\<lambda>c. c \<noteq> newline) (rev s))"

definition trim_one_newline :: "string \<Rightarrow> string" where
  "trim_one_newline s = (if s \<noteq> [] \<and> last s = newline then butlast s else s)"

text \<open>Two small files for trying \<open>ReadLastLine\<close> out.\<close>

definition three_lines :: string where
  \<open>three_lines = ''{"type":"user"}'' @ [newline] @ ''{"type":"assistant"}'' @ [newline]
     @ ''{"type":"progress"}'' @ [newline]\<close>

definition two_newlines :: string where
  "two_newlines = ''a'' @ [newline] @ ''b'' @ [newline, newline]"

section \<open>Cleaning the topic (metadata.go)\<close>

text \<open>
  \<open>stripIDESelectionTag\<close>. The closing tag cannot start inside the opening tag, so
  \<open>idx\<close> is at least 15, the length of the opening tag, and the slice
  \<open>prompt[15:idx]\<close> is \<open>take (idx - 15) (drop 15 prompt)\<close>; the closing tag is 16 bytes
  long.
\<close>

definition stripIDESelectionTag :: "string \<Rightarrow> string \<times> bool" where
  "stripIDESelectionTag prompt =
     (if \<not> HasPrefix prompt ''<ide_selection>'' then (prompt, False)
      else (case Index prompt ''</ide_selection>'' of
              None \<Rightarrow> (prompt, True)
            | Some idx \<Rightarrow>
                let afterTag = TrimSpace (drop (idx + 16) prompt) in
                if afterTag \<noteq> [] then (afterTag, True)
                else
                  let inner0 = take (idx - 15) (drop 15 prompt);
                      inner1 = (case Index inner0 ''This may or may not'' of
                                  None \<Rightarrow> inner0 | Some cutIdx \<Rightarrow> take cutIdx inner0);
                      inner2 = (case Index inner1 '': '' of
                                  None \<Rightarrow> inner1 | Some colonIdx \<Rightarrow> drop (colonIdx + 2) inner1);
                      inner = TrimSpace inner2
                  in if inner \<noteq> [] then (inner, True) else (''(IDE selection)'', True)))"

text \<open>\<open>stripIDEOpenedFileTag\<close>; \<open>"opened the file "\<close> is 16 bytes long.\<close>

definition stripIDEOpenedFileTag :: "string \<Rightarrow> string \<times> bool" where
  "stripIDEOpenedFileTag prompt =
     (if \<not> HasPrefix prompt ''<ide_opened_file>'' then ([], False)
      else (case Index prompt ''opened the file '' of
              None \<Rightarrow> (''(IDE context)'', True)
            | Some idx \<Rightarrow>
                let rest = drop (idx + 16) prompt in
                (case Index rest '' in the IDE'' of
                   None \<Rightarrow> (''(IDE context)'', True)
                 | Some endIdx \<Rightarrow> (''(opened '' @ Base (take endIdx rest) @ '')'', True))))"

text \<open>
  \<open>xmlTagRegex.ReplaceAllString(prompt, "")\<close> for the expression \<open><[^>]+>\<close>: at a
  \<open><\<close> the match runs to the next \<open>>\<close>, if there is one and at least one byte lies
  between; the leftmost match is removed and the search goes on behind it.
\<close>

fun strip_xml_tags :: "string \<Rightarrow> string" where
  "strip_xml_tags [] = []"
| "strip_xml_tags (c # cs) =
     (if c = CHR ''<'' then
        (case IndexByte cs CHR ''>'' of
           None \<Rightarrow> c # strip_xml_tags cs
         | Some i \<Rightarrow> if 1 \<le> i then strip_xml_tags (drop (i + 1) cs) else c # strip_xml_tags cs)
      else c # strip_xml_tags cs)"

text \<open>
  The alternatives of \<open>noiseRegex\<close> at the start of a line: the length of the match
  of the first alternative that matches the text, if one does.
  \<^item> \<open>Caveat:[^.]*\. \<close>: up to the first full stop, which a space must follow;
  \<^item> \<open>Implement the following plan: *\<close>: with every space that follows;
  \<^item> \<open>#\<close> and a space;
  \<^item> \<open>DO NOT .*$\<close>, \<open>IMPORTANT:.*$\<close> and \<open>The messages below.*$\<close>: the rest of the line;
  \<^item> \<open>No prompt$\<close>: only when the line ends there.
\<close>

definition line_length :: "string \<Rightarrow> nat" where
  "line_length s = length (takeWhile (\<lambda>c. c \<noteq> newline) s)"

definition noise_match :: "string \<Rightarrow> nat option" where
  "noise_match s =
     (if HasPrefix s ''Caveat:'' \<and>
         (case IndexByte (drop 7 s) CHR ''.'' of
            None \<Rightarrow> False
          | Some i \<Rightarrow> HasPrefix (drop (7 + i + 1) s) '' '')
        then (case IndexByte (drop 7 s) CHR ''.'' of None \<Rightarrow> None | Some i \<Rightarrow> Some (7 + i + 2))
      else if HasPrefix s ''Implement the following plan:''
        then Some (29 + length (takeWhile (\<lambda>c. c = CHR '' '') (drop 29 s)))
      else if HasPrefix s ''# '' then Some 2
      else if HasPrefix s ''DO NOT '' then Some (line_length s)
      else if HasPrefix s ''IMPORTANT:'' then Some (line_length s)
      else if HasPrefix s ''The messages below'' then Some (line_length s)
      else if HasPrefix s ''No prompt'' \<and> (drop 9 s = [] \<or> HasPrefix (drop 9 s) [newline])
        then Some 9
      else None)"

text \<open>
  \<open>noiseRegex.ReplaceAllString(prompt, "")\<close>: \<open>bol\<close> says that the scan stands at the
  start of a line, the only place where \<open>(?m)^\<close> matches. A match is at least two
  bytes long and never ends with a newline, so the scan goes on behind it inside the
  line (\<open>drop (n - 1) cs\<close> is the text behind a match of \<open>n\<close> bytes that starts at \<open>c\<close>).
\<close>

fun strip_noise :: "bool \<Rightarrow> string \<Rightarrow> string" where
  "strip_noise bol [] = []"
| "strip_noise bol (c # cs) =
     (if bol then
        (case noise_match (c # cs) of
           None \<Rightarrow> c # strip_noise (c = newline) cs
         | Some n \<Rightarrow> strip_noise False (drop (n - 1) cs))
      else c # strip_noise (c = newline) cs)"

definition stripXMLAndNoise :: "string \<Rightarrow> string" where
  "stripXMLAndNoise prompt = Join (Fields (strip_noise True (strip_xml_tags prompt))) '' ''"

definition CleanTopic :: "string \<Rightarrow> string" where
  "CleanTopic prompt =
     (if prompt = [] then []
      else
        let prompt1 = (if snd (stripIDESelectionTag prompt)
                       then fst (stripIDESelectionTag prompt) else prompt)
        in if snd (stripIDESelectionTag prompt) \<and> prompt1 = [] then []
           else if snd (stripIDEOpenedFileTag prompt1) then fst (stripIDEOpenedFileTag prompt1)
           else stripXMLAndNoise prompt1)"

section \<open>Transcript metadata (metadata.go)\<close>

definition maxScannerBufferBytes :: nat where
  "maxScannerBufferBytes = 1024 * 1024"

definition maxPromptLength :: nat where
  "maxPromptLength = 200"

definition maxLinesToScanPrompt :: nat where
  "maxLinesToScanPrompt = 30"

definition activeRecentThreshold :: int where
  "activeRecentThreshold = 30 * Second"

definition activeUserPromptThreshold :: int where
  "activeUserPromptThreshold = 5 * 60 * Second"

record cachedMetadata =
  cached_FullPath :: string
  cached_Topic :: string
  cached_Messages :: int
  cached_Branch :: string

record sessionsIndexEntry =
  SessionID :: string
  FullPath :: string
  FirstPrompt :: string
  MessageCount :: int
  FileMtime :: int
  Created :: string
  Modified :: string
  GitBranch :: string

text \<open>
  \<open>jsonlLine\<close>: the fields of a transcript line; \<open>Content\<close> is the raw JSON text of
  \<open>message.content\<close> (a \<open>json.RawMessage\<close>).
\<close>

record jsonlMessage =
  Role :: string
  Content :: string

record jsonlLine =
  line_Type :: string
  Message :: jsonlMessage
  Slug :: string
  line_GitBranch :: string
  line_SessionID :: string
  line_CWD :: string

text \<open>
  What the functions of \<open>metadata.go\<close> ask of the machine and of Go's library:
  \<^item> \<open>files\<close>: the file system;
  \<^item> \<open>glob\<close>: \<open>filepath.Glob\<close>, the paths that match a pattern, or \<open>None\<close> for its error;
  \<^item> \<open>unmarshal_index\<close>: \<open>json.Unmarshal\<close> into a \<open>sessionsIndex\<close>, giving its entries,
    or \<open>None\<close> for an error;
  \<^item> \<open>unmarshal_line\<close>: \<open>json.Unmarshal\<close> into a \<open>jsonlLine\<close>;
  \<^item> \<open>unmarshal_string\<close>: \<open>json.Unmarshal\<close> of a raw message into a \<open>string\<close>;
  \<^item> \<open>unmarshal_text_blocks\<close>: into a slice of \<open>{Type, Text}\<close> blocks;
  \<^item> \<open>unmarshal_tool_blocks\<close>: into a slice of \<open>{Type, Name}\<close> blocks;
  \<^item> \<open>sort_entries\<close>: what \<open>sort.Slice\<close> makes of the entries with the comparison of
    \<open>findSessionFromIndex\<close> (\<open>sort.Slice\<close> is not stable, so the library decides the
    order of entries with equal time stamps);
  \<^item> \<open>format_time\<close>: \<open>Format(time.RFC3339Nano)\<close> of a modification time.
\<close>

record machine =
  files :: filesystem
  glob :: "string \<Rightarrow> string list option"
  unmarshal_index :: "string \<Rightarrow> sessionsIndexEntry list option"
  unmarshal_line :: "string \<Rightarrow> jsonlLine option"
  unmarshal_string :: "string \<Rightarrow> string option"
  unmarshal_text_blocks :: "string \<Rightarrow> (string \<times> string) list option"
  unmarshal_tool_blocks :: "string \<Rightarrow> (string \<times> string) list option"
  sort_entries :: "sessionsIndexEntry list \<Rightarrow> sessionsIndexEntry list"
  format_time :: "int \<Rightarrow> string"

text \<open>
  The result of the two transcript matchers: \<open>None\<close> for \<open>found = false\<close>, otherwise
  the path, the first prompt, the message count and the branch.
\<close>

type_synonym match = "(string \<times> string \<times> int \<times> string) option"

definition findSessionFromIndex :: "machine \<Rightarrow> string \<Rightarrow> match" where
  "findSessionFromIndex m indexPath =
     (case files m indexPath of
        None \<Rightarrow> None
      | Some f \<Rightarrow>
          (case unmarshal_index m (content f) of
             None \<Rightarrow> None
           | Some entries \<Rightarrow>
               if length entries = 0 then None
               else
                 let entry = sort_entries m entries ! 0 in
                 if FullPath entry = [] then None
                 else
                   let prompt = (if length (FirstPrompt entry) > maxPromptLength
                                 then take maxPromptLength (FirstPrompt entry)
                                 else FirstPrompt entry)
                   in Some (FullPath entry, prompt, MessageCount entry, GitBranch entry)))"

text \<open>
  The lines that a \<open>bufio.Scanner\<close> with a buffer of \<open>maxScannerBufferBytes\<close> yields:
  the text between the newlines, a carriage return at the end of a line dropped, no
  empty line behind the last newline; the scan stops at a line that does not fit in
  the buffer.
\<close>

definition drop_cr :: "string \<Rightarrow> string" where
  "drop_cr s = (if s \<noteq> [] \<and> last s = CHR 0x0D then butlast s else s)"

definition scanner_lines :: "string \<Rightarrow> string list" where
  "scanner_lines data =
     map drop_cr
       (takeWhile (\<lambda>l. length l < maxScannerBufferBytes)
          (if last (Split data newline) = [] then butlast (Split data newline)
           else Split data newline))"

text \<open>\<open>extractMessageText\<close>.\<close>

definition extractMessageText :: "machine \<Rightarrow> string \<Rightarrow> string" where
  "extractMessageText m raw =
     (if length raw = 0 then []
      else (case unmarshal_string m raw of
              Some textContent \<Rightarrow> textContent
            | None \<Rightarrow>
                (case unmarshal_text_blocks m raw of
                   Some contentBlocks \<Rightarrow>
                     Join (map snd (filter (\<lambda>block. fst block = ''text'' \<and> snd block \<noteq> [])
                                      contentBlocks)) '' ''
                 | None \<Rightarrow> [])))"

text \<open>\<open>hasToolUse\<close>: the loop over the blocks returns at the first one that fits.\<close>

fun hasToolUse_loop :: "(string \<times> string) list \<Rightarrow> string \<Rightarrow> bool" where
  "hasToolUse_loop [] toolName = False"
| "hasToolUse_loop (block # blocks) toolName =
     (if fst block = ''tool_use'' \<and> snd block = toolName then True
      else hasToolUse_loop blocks toolName)"

definition hasToolUse :: "machine \<Rightarrow> string \<Rightarrow> string \<Rightarrow> bool" where
  "hasToolUse m raw toolName =
     (if length raw = 0 then False
      else (case unmarshal_tool_blocks m raw of
              None \<Rightarrow> False
            | Some contentBlocks \<Rightarrow> hasToolUse_loop contentBlocks toolName))"

text \<open>
  The loop of \<open>extractFirstPrompt\<close> over the lines of the scanner (at most
  \<open>maxLinesToScanPrompt\<close> of them are looked at).
\<close>

fun extractFirstPrompt_loop :: "machine \<Rightarrow> string list \<Rightarrow> string" where
  "extractFirstPrompt_loop m [] = []"
| "extractFirstPrompt_loop m (line # lines) =
     (if line = [] then extractFirstPrompt_loop m lines
      else (case unmarshal_line m line of
              None \<Rightarrow> extractFirstPrompt_loop m lines
            | Some entry \<Rightarrow>
                if line_Type entry \<noteq> ''user'' then extractFirstPrompt_loop m lines
                else
                  let text = extractMessageText m (Content (Message entry)) in
                  if HasPrefix text ''[Request interrupted'' \<or> HasPrefix text ''[Tool use''
                    then extractFirstPrompt_loop m lines
                  else if length text > maxPromptLength then take maxPromptLength text
                  else text))"

definition extractFirstPrompt :: "machine \<Rightarrow> string \<Rightarrow> string" where
  "extractFirstPrompt m jsonlPath =
     (case files m jsonlPath of
        None \<Rightarrow> []
      | Some f \<Rightarrow>
          extractFirstPrompt_loop m (take maxLinesToScanPrompt (scanner_lines (content f))))"

definition countLines :: "machine \<Rightarrow> string \<Rightarrow> int" where
  "countLines m filePath =
     (case files m filePath of
        None \<Rightarrow> 0
      | Some f \<Rightarrow> int (length (scanner_lines (content f))))"

text \<open>
  The loop of \<open>findSessionFallback\<close> that looks for the newest transcript:
  \<open>newest\<close> is \<open>None\<close> while \<open>newestPath\<close> is empty (no path that \<open>Glob\<close> returns is).
\<close>

fun newest_loop :: "filesystem \<Rightarrow> string list \<Rightarrow> (string \<times> int) option \<Rightarrow> (string \<times> int) option" where
  "newest_loop fs [] newest = newest"
| "newest_loop fs (matchPath # matches) newest =
     (case fs matchPath of
        None \<Rightarrow> newest_loop fs matches newest
      | Some info \<Rightarrow>
          (case newest of
             None \<Rightarrow> newest_loop fs matches (Some (matchPath, modTime info))
           | Some (newestPath, newestTime) \<Rightarrow>
               if modTime info > newestTime
                 then newest_loop fs matches (Some (matchPath, modTime info))
               else newest_loop fs matches newest))"

definition findSessionFallback :: "machine \<Rightarrow> string \<Rightarrow> match" where
  "findSessionFallback m projectDir =
     (case glob m (JoinPath [projectDir, ''*.jsonl'']) of
        None \<Rightarrow> None
      | Some matches \<Rightarrow>
          if length matches = 0 then None
          else (case newest_loop (files m) matches None of
                  None \<Rightarrow> None
                | Some (newestPath, newestTime) \<Rightarrow>
                    let firstPrompt = extractFirstPrompt m newestPath;
                        messageCount = countLines m newestPath;
                        lastLine = ReadLastLine (files m) newestPath;
                        lastEntry = (if lastLine \<noteq> [] then unmarshal_line m lastLine else None)
                    in (case lastEntry of
                          None \<Rightarrow> Some (newestPath, firstPrompt, messageCount, [])
                        | Some e \<Rightarrow>
                            Some (newestPath,
                                  if firstPrompt = [] \<and> Slug e \<noteq> [] then Slug e else firstPrompt,
                                  messageCount, line_GitBranch e))))"

subsection \<open>The state of a session\<close>

text \<open>
  \<open>now.Sub(mtime)\<close> for two wall-clock times in nanoseconds: the difference, or the
  nearest end of the range of \<open>time.Duration\<close> when it does not fit.
\<close>

definition Sub :: "int \<Rightarrow> int \<Rightarrow> int" where
  "Sub t u =
     (if t - u > 9223372036854775807 then 9223372036854775807
      else if t - u < - 9223372036854775808 then - 9223372036854775808
      else t - u)"

definition DetectState :: "machine \<Rightarrow> string \<Rightarrow> int \<Rightarrow> int \<Rightarrow> State" where
  "DetectState m jsonlPath mtime now =
     (let age = Sub now mtime in
      if age < activeRecentThreshold then StateActive
      else
        let lastLine = ReadLastLine (files m) jsonlPath in
        if lastLine = [] then StateIdle
        else (case unmarshal_line m lastLine of
                None \<Rightarrow> StateIdle
              | Some entry \<Rightarrow>
                  if line_Type entry = ''progress'' then StateActive
                  else if Role (Message entry) = ''assistant'' then
                    (if hasToolUse m (Content (Message entry)) ''AskUserQuestion''
                     then StateInput else StateWaiting)
                  else if Role (Message entry) = ''user'' \<and> age < activeUserPromptThreshold
                    then StateActive
                  else StateIdle))"

subsection \<open>Enrichment and the cache\<close>

text \<open>
  The part of \<open>enrichSession\<close> behind the transcript matchers (from \<open>os.Stat\<close> on):
  \<open>metadataCache\<close>, the global map, is passed in and returned.
\<close>

definition enrichFound ::
  "machine \<Rightarrow> (string \<Rightarrow> cachedMetadata option) \<Rightarrow> Session \<Rightarrow> string \<Rightarrow> int
     \<Rightarrow> string \<times> string \<times> int \<times> string \<Rightarrow> Session \<times> (string \<Rightarrow> cachedMetadata option)" where
  "enrichFound m metadataCache session cwd now found =
     (case found of (fullPath, firstPrompt, messageCount, gitBranch) \<Rightarrow>
        (case files m fullPath of
           None \<Rightarrow> (session, metadataCache)
         | Some fileInfo \<Rightarrow>
             let mtime = modTime fileInfo;
                 cacheKey = cwd @ '':'' @ format_time m mtime
             in (case metadataCache cacheKey of
                   Some cached \<Rightarrow>
                     (session\<lparr>Topic := cached_Topic cached, Messages := cached_Messages cached,
                        Branch := cached_Branch cached,
                        State := DetectState m (cached_FullPath cached) mtime now\<rparr>,
                      metadataCache)
                 | None \<Rightarrow>
                     let topic0 = CleanTopic firstPrompt;
                         lastLine = (if topic0 = [] then ReadLastLine (files m) fullPath else []);
                         lastEntry = (if lastLine \<noteq> [] then unmarshal_line m lastLine else None);
                         topic = (if topic0 = [] then
                                    (case lastEntry of
                                       None \<Rightarrow> topic0
                                     | Some e \<Rightarrow>
                                         if Slug e \<noteq> [] then Slug e
                                         else if line_SessionID e \<noteq> [] \<and> length (line_SessionID e) \<ge> 8
                                           then take 8 (line_SessionID e)
                                         else topic0)
                                  else topic0)
                     in (session\<lparr>Topic := topic, Messages := messageCount, Branch := gitBranch,
                           State := DetectState m fullPath mtime now\<rparr>,
                         metadataCache(cacheKey \<mapsto>
                           \<lparr>cached_FullPath = fullPath, cached_Topic = topic,
                            cached_Messages = messageCount, cached_Branch = gitBranch\<rparr>)))))"

text \<open>\<open>enrichSession\<close>: the index first, the scan of the directory when it finds nothing.\<close>

definition enrichSession ::
  "machine \<Rightarrow> (string \<Rightarrow> cachedMetadata option) \<Rightarrow> Session \<Rightarrow> string \<Rightarrow> string \<Rightarrow> int
     \<Rightarrow> Session \<times> (string \<Rightarrow> cachedMetadata option)" where
  "enrichSession m metadataCache session0 projectsDir cwd now =
     (let session = session0\<lparr>State := StateIdle\<rparr>;
          encodedPath = EncodePath cwd;
          projectDir = JoinPath [projectsDir, encodedPath];
          indexPath = JoinPath [projectDir, ''sessions-index.json'']
      in (case findSessionFromIndex m indexPath of
            Some found \<Rightarrow> enrichFound m metadataCache session cwd now found
          | None \<Rightarrow>
              (case findSessionFallback m projectDir of
                 Some found \<Rightarrow> enrichFound m metadataCache session cwd now found
               | None \<Rightarrow> (session, metadataCache))))"

text \<open>The loop of \<open>EnrichSessions\<close>, with the time of \<open>time.Now()\<close> passed in.\<close>

fun EnrichSessions_loop ::
  "machine \<Rightarrow> string \<Rightarrow> int \<Rightarrow> (string \<Rightarrow> cachedMetadata option) \<Rightarrow> Session list
     \<Rightarrow> Session list \<times> (string \<Rightarrow> cachedMetadata option)" where
  "EnrichSessions_loop m projectsDir now metadataCache [] = ([], metadataCache)"
| "EnrichSessions_loop m projectsDir now metadataCache (session # sessions) =
     (case enrichSession m metadataCache session projectsDir (CWD session) now of
        (session', metadataCache') \<Rightarrow>
          (case EnrichSessions_loop m projectsDir now metadataCache' sessions of
             (sessions', metadataCache'') \<Rightarrow> (session' # sessions', metadataCache'')))"

definition EnrichSessions ::
  "machine \<Rightarrow> int \<Rightarrow> (string \<Rightarrow> cachedMetadata option) \<Rightarrow> Session list \<Rightarrow> string
     \<Rightarrow> Session list \<times> (string \<Rightarrow> cachedMetadata option)" where
  "EnrichSessions m now metadataCache sessions claudeDir =
     EnrichSessions_loop m (JoinPath [claudeDir, ''projects'']) now metadataCache sessions"

section \<open>The orchestrator\<close>

text \<open>
  What \<open>DiscoverAll\<close> asks of the machine besides the above: the value of \<open>HOME\<close>, the
  output of \<open>ps\<close> (empty when the command fails) and the time of \<open>time.Now()\<close>.
\<close>

record world =
  HOME :: string
  ps_output :: string
  cwds :: cwd_sources
  ide :: ide_sources
  meta :: machine
  time_now :: int

text \<open>
  \<open>DiscoverAll\<close>, with the global cache passed in and returned. \<open>fused_sessions\<close> is
  the slice \<open>sessions\<close> as it stands before the enrichment.
\<close>

definition fused_sessions :: "world \<Rightarrow> Session list" where
  "fused_sessions w =
     (let entries = ParsePS (ps_output w) in
      if length entries = 0 then []
      else
        let cwdMap = BatchResolveCWDs (cwds w) entries;
            ideSessions = discoverIDESessions (ide w) entries cwdMap;
            seenCWDs = set (map CWD ideSessions);
            cliSessions = fst (discoverCLISessions entries cwdMap seenCWDs)
        in ideSessions @ cliSessions)"

definition DiscoverAll ::
  "world \<Rightarrow> (string \<Rightarrow> cachedMetadata option)
     \<Rightarrow> Session list \<times> (string \<Rightarrow> cachedMetadata option)" where
  "DiscoverAll w metadataCache =
     (if length (ParsePS (ps_output w)) = 0 then ([], metadataCache)
      else EnrichSessions (meta w) (time_now w) metadataCache (fused_sessions w)
             (JoinPath [HOME w, ''.claude'']))"

section \<open>Rendering durations\<close>








section \<open>Parsing elapsed times\<close>

lemma space_width_ascii: "ascii_space a \<Longrightarrow> space_width (a # xs) = Suc 0"
  by (cases xs rule: space_width.cases) auto

lemma isDigit_not_space: "isDigit a \<Longrightarrow> \<not> ascii_space a"
  by (auto simp: isDigit_def ascii_space_def)

lemma isDigit_not_space2: "isDigit a \<Longrightarrow> \<not> space2 a b" "isDigit b \<Longrightarrow> \<not> space2 a b"
  by (auto simp: isDigit_def space2_def)

lemma isDigit_not_space3: "isDigit a \<Longrightarrow> \<not> space3 a b c" "isDigit c \<Longrightarrow> \<not> space3 a b c"
  by (auto simp: isDigit_def space3_def)

lemma space_width_digit: "isDigit a \<Longrightarrow> space_width (a # xs) = 0"
  by (cases xs rule: space_width.cases)
     (auto simp: isDigit_not_space isDigit_not_space2 isDigit_not_space3)

lemma TrimLeftSpace_digit: "isDigit c \<Longrightarrow> TrimLeftSpace (c # cs) = c # cs"
  by (simp add: space_width_digit)

lemma TrimLeftSpace_spaces:
  "list_all ascii_space ws \<Longrightarrow> isDigit c \<Longrightarrow> TrimLeftSpace (ws @ c # cs) = c # cs"
  by (induction ws) (simp_all add: space_width_digit space_width_ascii)

lemma space_width_end_digit:
  assumes "s \<noteq> []" "isDigit (last s)"
  shows "space_width_end s = 0"
proof -
  have l: "s ! (length s - 1) = last s"
    using assms(1) by (simp add: last_conv_nth)
  show ?thesis
    unfolding space_width_end_def Let_def l
    using assms(2) by (simp add: isDigit_not_space isDigit_not_space2 isDigit_not_space3)
qed

lemma TrimRightSpace_digit: "s \<noteq> [] \<Longrightarrow> isDigit (last s) \<Longrightarrow> TrimRightSpace s = s"
  by (subst TrimRightSpace.simps) (simp add: space_width_end_digit)

lemma TrimSpace_spaces_digits:
  assumes "list_all ascii_space ws" "body \<noteq> []" "isDigit (hd body)" "isDigit (last body)"
  shows "TrimSpace (ws @ body) = body"
proof -
  obtain c cs where b: "body = c # cs" using assms(2) by (cases body) auto
  have "TrimLeftSpace (ws @ body) = body"
    using assms(1,3) unfolding b by (simp add: TrimLeftSpace_spaces)
  then show ?thesis
    using assms(2,4) by (simp add: TrimSpace_def TrimRightSpace_digit)
qed

lemma IndexByte_absent: "b \<notin> set xs \<Longrightarrow> IndexByte xs b = None"
  by (induction xs) auto

lemma IndexByte_first: "b \<notin> set xs \<Longrightarrow> IndexByte (xs @ b # ys) b = Some (length xs)"
  by (induction xs) auto

lemma Split_from_absent: "sep \<notin> set xs \<Longrightarrow> Split_from cur xs sep = [cur @ xs]"
  by (induction xs arbitrary: cur) auto

lemma Split_from_first:
  "sep \<notin> set xs \<Longrightarrow> Split_from cur (xs @ sep # ys) sep = (cur @ xs) # Split_from [] ys sep"
  by (induction xs arbitrary: cur) auto

lemma Split_absent: "sep \<notin> set xs \<Longrightarrow> Split xs sep = [xs]"
  by (simp add: Split_def Split_from_absent)

lemma Split_first: "sep \<notin> set xs \<Longrightarrow> Split (xs @ sep # ys) sep = xs # Split ys sep"
  by (simp add: Split_def Split_from_first)

lemma fold_digits_mono: "n \<le> fold (\<lambda>c a. a * 10 + digit_val c) s n"
proof (induction s arbitrary: n)
  case Nil
  show ?case by simp
next
  case (Cons c s)
  have "n \<le> n * 10 + digit_val c" by simp
  also have "\<dots> \<le> fold (\<lambda>c a. a * 10 + digit_val c) s (n * 10 + digit_val c)"
    by (rule Cons.IH)
  finally show ?case by simp
qed

lemma ParseUint_loop_digits:
  "list_all isDigit s \<Longrightarrow> fold (\<lambda>c a. a * 10 + digit_val c) s n < 18446744073709551616
    \<Longrightarrow> ParseUint_loop n s = (fold (\<lambda>c a. a * 10 + digit_val c) s n, None)"
proof (induction s arbitrary: n)
  case Nil
  show ?case by simp
next
  case (Cons c s)
  have "n * 10 + digit_val c \<le> fold (\<lambda>c a. a * 10 + digit_val c) s (n * 10 + digit_val c)"
    by (rule fold_digits_mono)
  then have small: "n * 10 + digit_val c < 18446744073709551616"
    using Cons.prems(2) by simp
  show ?case
    using Cons.prems small Cons.IH [of "n * 10 + digit_val c"] by simp
qed

lemma isDigit_not_sign: "isDigit c \<Longrightarrow> c \<noteq> CHR ''-'' \<and> c \<noteq> CHR ''+'' \<and> c \<noteq> CHR '':''"
  by (auto simp: isDigit_def)

lemma Atoi_number:
  assumes "is_number s" "digits_val s < 9223372036854775808"
  shows "Atoi s = (int (digits_val s), None)"
proof -
  obtain c cs where s: "s = c # cs" and d: "isDigit c" and ds: "list_all isDigit s"
    using assms(1) by (cases s) (auto simp: is_number_def)
  have p: "ParseUint_loop 0 s = (digits_val s, None)"
    unfolding digits_val_def using ds assms(2)
    by (intro ParseUint_loop_digits) (simp_all add: digits_val_def)
  have h: "hd s \<noteq> CHR ''-''" "hd s \<noteq> CHR ''+''" "s \<noteq> []"
    using s isDigit_not_sign [OF d] by simp_all
  show ?thesis
    unfolding Atoi_def Let_def using h p assms(2) by simp
qed

lemma wrap64_id:
  "- 9223372036854775808 \<le> x \<Longrightarrow> x < 9223372036854775808 \<Longrightarrow> wrap64 x = x"
  by (simp add: wrap64_def mod_pos_pos_trivial)

lemma is_number_no_sep:
  "is_number s \<Longrightarrow> CHR ''-'' \<notin> set s \<and> CHR '':'' \<notin> set s"
  using isDigit_not_sign by (auto simp: is_number_def list_all_iff)

lemma is_number_ends: "is_number s \<Longrightarrow> s \<noteq> [] \<and> isDigit (hd s) \<and> isDigit (last s)"
  by (cases s) (auto simp: is_number_def list_all_iff)

lemma wrap64_0: "wrap64 0 = 0"
  by (simp add: wrap64_def)

lemma wrap64_times_Second:
  assumes "0 \<le> t" "t \<le> 9223372036"
  shows "wrap64 (t * Second) = t * Second"
proof -
  have "t * 1000000000 \<le> 9223372036 * 1000000000"
    using assms(2) by (intro mult_right_mono) simp_all
  moreover have "0 \<le> t * 1000000000"
    using assms(1) by simp
  ultimately show ?thesis
    unfolding Second_def by (intro wrap64_id) simp_all
qed

lemma total_seconds_exact:
  fixes d h m s :: nat
  assumes "d * 86400 + h * 3600 + m * 60 + s \<le> 9223372036"
  shows "wrap64 (wrap64 (wrap64 (wrap64 (wrap64 (int d * 86400) + wrap64 (int h * 3600))
            + wrap64 (int m * 60)) + int s) * Second)
         = (int d * 86400 + int h * 3600 + int m * 60 + int s) * Second"
proof -
  have b: "int d * 86400 + int h * 3600 + int m * 60 + int s \<le> 9223372036"
    using assms by linarith
  have n: "0 \<le> int d" "0 \<le> int h" "0 \<le> int m" "0 \<le> int s" by simp_all
  have w1: "wrap64 (int d * 86400) = int d * 86400"
    using b n by (intro wrap64_id) linarith+
  have w2: "wrap64 (int h * 3600) = int h * 3600"
    using b n by (intro wrap64_id) linarith+
  have w3: "wrap64 (int m * 60) = int m * 60"
    using b n by (intro wrap64_id) linarith+
  have w4: "wrap64 (int d * 86400 + int h * 3600) = int d * 86400 + int h * 3600"
    using b n by (intro wrap64_id) linarith+
  have w5: "wrap64 (int d * 86400 + int h * 3600 + int m * 60)
      = int d * 86400 + int h * 3600 + int m * 60"
    using b n by (intro wrap64_id) linarith+
  have w6: "wrap64 (int d * 86400 + int h * 3600 + int m * 60 + int s)
      = int d * 86400 + int h * 3600 + int m * 60 + int s"
    using b n by (intro wrap64_id) linarith+
  have w7: "wrap64 ((int d * 86400 + int h * 3600 + int m * 60 + int s) * Second)
      = (int d * 86400 + int h * 3600 + int m * 60 + int s) * Second"
    using b n by (intro wrap64_times_Second) linarith+
  show ?thesis
    by (simp only: w1 w2 w3 w4 w5 w6 w7)
qed

lemma small_field:
  fixes d h m s :: nat
  assumes "d * 86400 + h * 3600 + m * 60 + s \<le> 9223372036"
  shows "d < 9223372036854775808" "h < 9223372036854775808"
    "m < 9223372036854775808" "s < 9223372036854775808"
  using assms by linarith+

lemma ParseEtime_SS:
  assumes "list_all ascii_space ws" "is_number S" "digits_val S \<le> 9223372036"
  shows "ParseEtime (ws @ S) = int (digits_val S) * Second"
proof -
  have t: "TrimSpace (ws @ S) = S"
    using assms(1) is_number_ends [OF assms(2)] by (simp add: TrimSpace_spaces_digits)
  have i: "IndexByte S CHR ''-'' = None"
    using is_number_no_sep [OF assms(2)] by (simp add: IndexByte_absent)
  have p: "Split S CHR '':'' = [S]"
    using is_number_no_sep [OF assms(2)] by (simp add: Split_absent)
  have a: "Atoi S = (int (digits_val S), None)"
    using assms(2,3) by (intro Atoi_number) simp_all
  have w: "wrap64 (wrap64 (wrap64 (wrap64 (wrap64 (int 0 * 86400) + wrap64 (int 0 * 3600))
            + wrap64 (int 0 * 60)) + int (digits_val S)) * Second)
         = (int 0 * 86400 + int 0 * 3600 + int 0 * 60 + int (digits_val S)) * Second"
    using assms(3) by (intro total_seconds_exact) simp
  show ?thesis
    using w by (simp add: ParseEtime_def Let_def t i p a wrap64_0)
qed

lemma ParseEtime_MM_SS:
  assumes "list_all ascii_space ws" "is_number M" "is_number S"
    "digits_val M * 60 + digits_val S \<le> 9223372036"
  shows "ParseEtime (ws @ M @ CHR '':'' # S) = (int (digits_val M) * 60 + int (digits_val S)) * Second"
proof -
  have e: "M @ CHR '':'' # S \<noteq> []" "isDigit (hd (M @ CHR '':'' # S))" "isDigit (last (M @ CHR '':'' # S))"
    using is_number_ends [OF assms(2)] is_number_ends [OF assms(3)] by simp_all
  have t: "TrimSpace (ws @ M @ CHR '':'' # S) = M @ CHR '':'' # S"
    using assms(1) e by (intro TrimSpace_spaces_digits)
  have i: "IndexByte (M @ CHR '':'' # S) CHR ''-'' = None"
    using is_number_no_sep [OF assms(2)] is_number_no_sep [OF assms(3)]
    by (simp add: IndexByte_absent)
  have p: "Split (M @ CHR '':'' # S) CHR '':'' = [M, S]"
    using is_number_no_sep [OF assms(2)] is_number_no_sep [OF assms(3)]
    by (simp add: Split_first Split_absent)
  have s: "digits_val M < 9223372036854775808" "digits_val S < 9223372036854775808"
    using small_field [of 0 0 "digits_val M" "digits_val S"] assms(4) by simp_all
  have a: "Atoi M = (int (digits_val M), None)" "Atoi S = (int (digits_val S), None)"
    using assms(2,3) s by (simp_all add: Atoi_number)
  have w: "wrap64 (wrap64 (wrap64 (wrap64 (wrap64 (int 0 * 86400) + wrap64 (int 0 * 3600))
            + wrap64 (int (digits_val M) * 60)) + int (digits_val S)) * Second)
         = (int 0 * 86400 + int 0 * 3600 + int (digits_val M) * 60 + int (digits_val S)) * Second"
    using assms(4) by (intro total_seconds_exact) simp
  show ?thesis
    using w by (simp add: ParseEtime_def Let_def t i p a wrap64_0)
qed

lemma ParseEtime_HH_MM_SS:
  assumes "list_all ascii_space ws" "is_number H" "is_number M" "is_number S"
    "digits_val H * 3600 + digits_val M * 60 + digits_val S \<le> 9223372036"
  shows "ParseEtime (ws @ H @ CHR '':'' # M @ CHR '':'' # S)
    = (int (digits_val H) * 3600 + int (digits_val M) * 60 + int (digits_val S)) * Second"
proof -
  let ?b = "H @ CHR '':'' # M @ CHR '':'' # S"
  have e: "?b \<noteq> []" "isDigit (hd ?b)" "isDigit (last ?b)"
    using is_number_ends [OF assms(2)] is_number_ends [OF assms(4)] by simp_all
  have t: "TrimSpace (ws @ ?b) = ?b"
    using assms(1) e by (intro TrimSpace_spaces_digits)
  have i: "IndexByte ?b CHR ''-'' = None"
    using is_number_no_sep [OF assms(2)] is_number_no_sep [OF assms(3)]
      is_number_no_sep [OF assms(4)]
    by (simp add: IndexByte_absent)
  have p: "Split ?b CHR '':'' = [H, M, S]"
    using is_number_no_sep [OF assms(2)] is_number_no_sep [OF assms(3)]
      is_number_no_sep [OF assms(4)]
    by (simp add: Split_first Split_absent)
  have s: "digits_val H < 9223372036854775808" "digits_val M < 9223372036854775808"
    "digits_val S < 9223372036854775808"
    using small_field [of 0 "digits_val H" "digits_val M" "digits_val S"] assms(5) by simp_all
  have a: "Atoi H = (int (digits_val H), None)" "Atoi M = (int (digits_val M), None)"
    "Atoi S = (int (digits_val S), None)"
    using assms(2,3,4) s by (simp_all add: Atoi_number)
  have w: "wrap64 (wrap64 (wrap64 (wrap64 (wrap64 (int 0 * 86400) + wrap64 (int (digits_val H) * 3600))
            + wrap64 (int (digits_val M) * 60)) + int (digits_val S)) * Second)
         = (int 0 * 86400 + int (digits_val H) * 3600 + int (digits_val M) * 60
              + int (digits_val S)) * Second"
    using assms(5) by (intro total_seconds_exact) simp
  show ?thesis
    using w by (simp add: ParseEtime_def Let_def t i p a wrap64_0)
qed

lemma ParseEtime_D_HH_MM_SS_wrapped:
  assumes "list_all ascii_space ws" "is_number D" "is_number H" "is_number M" "is_number S"
    "digits_val D < 9223372036854775808" "digits_val H < 9223372036854775808"
    "digits_val M < 9223372036854775808" "digits_val S < 9223372036854775808"
  shows "ParseEtime (ws @ D @ CHR ''-'' # H @ CHR '':'' # M @ CHR '':'' # S)
    = wrap64 (wrap64 (wrap64 (wrap64 (wrap64 (int (digits_val D) * 86400)
            + wrap64 (int (digits_val H) * 3600))
            + wrap64 (int (digits_val M) * 60)) + int (digits_val S)) * Second)"
proof -
  let ?r = "H @ CHR '':'' # M @ CHR '':'' # S"
  let ?b = "D @ CHR ''-'' # ?r"
  have e: "?b \<noteq> []" "isDigit (hd ?b)" "isDigit (last ?b)"
    using is_number_ends [OF assms(2)] is_number_ends [OF assms(5)] by simp_all
  have t: "TrimSpace (ws @ ?b) = ?b"
    using assms(1) e by (intro TrimSpace_spaces_digits)
  have i: "IndexByte ?b CHR ''-'' = Some (length D)"
    using is_number_no_sep [OF assms(2)] by (simp add: IndexByte_first)
  have p: "Split ?r CHR '':'' = [H, M, S]"
    using is_number_no_sep [OF assms(3)] is_number_no_sep [OF assms(4)]
      is_number_no_sep [OF assms(5)]
    by (simp add: Split_first Split_absent)
  have a: "Atoi D = (int (digits_val D), None)" "Atoi H = (int (digits_val H), None)"
    "Atoi M = (int (digits_val M), None)" "Atoi S = (int (digits_val S), None)"
    using assms by (simp_all add: Atoi_number)
  show ?thesis
    by (simp add: ParseEtime_def Let_def t i p a)
qed

lemma ParseEtime_D_HH_MM_SS:
  assumes "list_all ascii_space ws" "is_number D" "is_number H" "is_number M" "is_number S"
    "digits_val D * 86400 + digits_val H * 3600 + digits_val M * 60 + digits_val S \<le> 9223372036"
  shows "ParseEtime (ws @ D @ CHR ''-'' # H @ CHR '':'' # M @ CHR '':'' # S)
    = (int (digits_val D) * 86400 + int (digits_val H) * 3600 + int (digits_val M) * 60
        + int (digits_val S)) * Second"
proof -
  have s: "digits_val D < 9223372036854775808" "digits_val H < 9223372036854775808"
    "digits_val M < 9223372036854775808" "digits_val S < 9223372036854775808"
    using small_field [of "digits_val D" "digits_val H" "digits_val M" "digits_val S"] assms(6)
    by simp_all
  show ?thesis
    using assms(1-5) s total_seconds_exact [OF assms(6)]
    by (simp add: ParseEtime_D_HH_MM_SS_wrapped)
qed

text \<open>
  Claim C6, as the code has it. For an elapsed time of one of the shapes \<open>SS\<close>,
  \<open>MM:SS\<close>, \<open>HH:MM:SS\<close> and \<open>D-HH:MM:SS\<close> (every field a string of decimal digits),
  behind any number of ASCII white-space bytes, \<open>ParseEtime\<close> returns exactly
  \<open>days * 86400 + hours * 3600 + minutes * 60 + seconds\<close> seconds, provided that this
  total is at most 9223372036 seconds, the largest whole number of seconds that a
  64-bit count of nanoseconds holds.
\<close>

theorem ParseEtime_exact_in_range:
  assumes "list_all ascii_space ws" "is_number D" "is_number H" "is_number M" "is_number S"
  shows
    "(digits_val S \<le> 9223372036 \<longrightarrow>
        ParseEtime (ws @ S) = int (digits_val S) * Second) \<and>
     (digits_val M * 60 + digits_val S \<le> 9223372036 \<longrightarrow>
        ParseEtime (ws @ M @ '':'' @ S)
          = (int (digits_val M) * 60 + int (digits_val S)) * Second) \<and>
     (digits_val H * 3600 + digits_val M * 60 + digits_val S \<le> 9223372036 \<longrightarrow>
        ParseEtime (ws @ H @ '':'' @ M @ '':'' @ S)
          = (int (digits_val H) * 3600 + int (digits_val M) * 60 + int (digits_val S)) * Second) \<and>
     (digits_val D * 86400 + digits_val H * 3600 + digits_val M * 60 + digits_val S \<le> 9223372036 \<longrightarrow>
        ParseEtime (ws @ D @ ''-'' @ H @ '':'' @ M @ '':'' @ S)
          = (int (digits_val D) * 86400 + int (digits_val H) * 3600 + int (digits_val M) * 60
              + int (digits_val S)) * Second)"
  using assms
  by (simp add: ParseEtime_SS ParseEtime_MM_SS ParseEtime_HH_MM_SS ParseEtime_D_HH_MM_SS)

lemma digits_val_examples:
  "digits_val ''1'' = 1" "digits_val ''00'' = 0" "digits_val ''30'' = 30"
  "digits_val ''106752'' = 106752"
  by (simp_all add: digits_val_def digit_val_def)

lemma is_number_examples:
  "is_number ''1''" "is_number ''00''" "is_number ''30''" "is_number ''106752''"
  by (simp_all add: is_number_def isDigit_def)

text \<open>
  The examples of the specification: \<open>"30"\<close> is 30 seconds, \<open>"1:30"\<close> (here behind two
  spaces) 90 seconds, \<open>"1:00:00"\<close> one hour and \<open>"1-00:00:00"\<close> 24 hours.
\<close>

theorem ParseEtime_exact_witness:
  "list_all ascii_space ''  '' \<and> is_number ''1'' \<and> is_number ''00'' \<and> is_number ''30'' \<and>
   ParseEtime ''30'' = 30 * Second \<and>
   ParseEtime ''  1:30'' = 90 * Second \<and>
   ParseEtime ''1:00:00'' = 3600 * Second \<and>
   ParseEtime ''1-00:00:00'' = 86400 * Second"
  using ParseEtime_exact_in_range [of "[]" "''1''" "''1''" "''1''" "''30''"]
    ParseEtime_exact_in_range [of "''  ''" "''1''" "''1''" "''1''" "''30''"]
    ParseEtime_exact_in_range [of "[]" "''1''" "''1''" "''00''" "''00''"]
    ParseEtime_exact_in_range [of "[]" "''1''" "''00''" "''00''" "''00''"]
  by (simp add: digits_val_examples is_number_examples ascii_space_def)

text \<open>
  Without the bound the claim fails: 106752 days are 9223372800 seconds, which no
  64-bit count of nanoseconds holds, and \<open>ParseEtime\<close> returns a negative duration.
\<close>

theorem ParseEtime_overflow_counterexample:
  "is_number ''106752'' \<and> is_number ''00'' \<and>
   ParseEtime ''106752-00:00:00'' = - 9223371273709551616 \<and>
   ParseEtime ''106752-00:00:00'' \<noteq>
     (int (digits_val ''106752'') * 86400 + int (digits_val ''00'') * 3600
        + int (digits_val ''00'') * 60 + int (digits_val ''00'')) * Second"
proof -
  have "ParseEtime ([] @ ''106752'' @ CHR ''-'' # ''00'' @ CHR '':'' # ''00'' @ CHR '':'' # ''00'')
      = wrap64 (wrap64 (wrap64 (wrap64 (wrap64 (int (digits_val ''106752'') * 86400)
            + wrap64 (int (digits_val ''00'') * 3600))
            + wrap64 (int (digits_val ''00'') * 60)) + int (digits_val ''00'')) * Second)"
    by (rule ParseEtime_D_HH_MM_SS_wrapped)
       (simp_all add: digits_val_examples is_number_examples)
  then have "ParseEtime ''106752-00:00:00'' = - 9223371273709551616"
    by (simp add: digits_val_examples wrap64_def Second_def)
  then show ?thesis
    by (simp add: digits_val_examples is_number_examples Second_def)
qed

section \<open>Scanning the process table\<close>











section \<open>Reading the last line of a transcript\<close>

lemma IndexByte_None_iff: "IndexByte xs b = None \<longleftrightarrow> b \<notin> set xs"
  by (induction xs) (auto split: option.splits)

lemma IndexByte_Some_takeWhile:
  "IndexByte xs b = Some i \<Longrightarrow> i = length (takeWhile (\<lambda>c. c \<noteq> b) xs) \<and> i < length xs"
  by (induction xs arbitrary: i) (auto split: option.splits if_splits)

lemma LastIndexByte_None_iff: "LastIndexByte s b = None \<longleftrightarrow> b \<notin> set s"
  using IndexByte_None_iff [of "rev s" b]
  by (cases "IndexByte (rev s) b") (simp_all add: LastIndexByte_def)

lemma takeWhile_all: "\<forall>x \<in> set xs. P x \<Longrightarrow> takeWhile P xs = xs"
  by (induction xs) auto

lemma last_line_no_newline: "newline \<notin> set s \<Longrightarrow> last_line s = s"
  unfolding last_line_def by (subst takeWhile_all) auto

lemma LastIndexByte_Some_drop:
  assumes "LastIndexByte s newline = Some i"
  shows "drop (i + 1) s = last_line s"
proof -
  obtain j where j: "IndexByte (rev s) newline = Some j" and i: "i = length s - 1 - j"
    using assms by (auto simp: LastIndexByte_def split: option.splits)
  have jl: "j = length (takeWhile (\<lambda>c. c \<noteq> newline) (rev s))" "j < length s"
    using IndexByte_Some_takeWhile [OF j] by simp_all
  have "i + 1 = length s - j"
    using i jl(2) by linarith
  then have "drop (i + 1) s = drop (length s - j) s"
    by simp
  also have "\<dots> = rev (take j (rev s))"
    by (simp add: take_rev)
  also have "take j (rev s) = takeWhile (\<lambda>c. c \<noteq> newline) (rev s)"
    unfolding jl(1) by (rule takeWhile_eq_take [symmetric])
  finally show ?thesis by (simp add: last_line_def)
qed

lemma last_line_newline_free: "newline \<notin> set (last_line s)"
proof
  assume "newline \<in> set (last_line s)"
  then have "newline \<in> set (takeWhile (\<lambda>c. c \<noteq> newline) (rev s))"
    by (simp add: last_line_def)
  then show False by (auto dest: set_takeWhileD)
qed


lemma TrimRight_no_newline: "b \<notin> set s \<Longrightarrow> TrimRight s b = s"
proof -
  assume a: "b \<notin> set s"
  have d: "\<forall>x \<in> set xs. x \<noteq> b \<Longrightarrow> dropWhile (\<lambda>c. c = b) xs = xs" for xs
    by (cases xs) auto
  have "dropWhile (\<lambda>c. c = b) (rev s) = rev s"
    by (rule d) (use a in auto)
  then show ?thesis by (simp add: TrimRight_def)
qed

lemma TrimRight_append:
  "TrimRight s b \<noteq> [] \<Longrightarrow> TrimRight (p @ s) b = p @ TrimRight s b"
proof -
  assume "TrimRight s b \<noteq> []"
  then have "dropWhile (\<lambda>c. c = b) (rev s) \<noteq> []"
    by (simp add: TrimRight_def)
  then obtain x where "x \<in> set (rev s)" "\<not> x = b"
    by (auto simp: dropWhile_eq_Nil_conv)
  then have "dropWhile (\<lambda>c. c = b) (rev s @ rev p) = dropWhile (\<lambda>c. c = b) (rev s) @ rev p"
    by (rule dropWhile_append1)
  then show ?thesis by (simp add: TrimRight_def)
qed

lemma last_line_append:
  "newline \<in> set t \<Longrightarrow> last_line (p @ t) = last_line t"
proof -
  assume "newline \<in> set t"
  then have "takeWhile (\<lambda>c. c \<noteq> newline) (rev t @ rev p) = takeWhile (\<lambda>c. c \<noteq> newline) (rev t)"
    by (intro takeWhile_append1 [where x = newline]) auto
  then show ?thesis by (simp add: last_line_def)
qed

lemma ReadLastLine_loop_step:
  assumes "0 < offset" "readSize = (if 4096 > offset then offset else 4096)"
    "offset' = offset - readSize" "buf' = take readSize (drop offset' data) @ buf"
  shows "ReadLastLine_loop data offset buf =
    (case LastIndexByte (TrimRight buf' newline) newline of
       Some i \<Rightarrow> (drop (i + 1) (TrimRight buf' newline), offset')
     | None \<Rightarrow> ReadLastLine_loop data offset' buf')"
  unfolding assms(4) assms(3) assms(2)
  by (subst ReadLastLine_loop.simps) (simp add: Let_def assms(1) split: option.split)

text \<open>
  The loop, started with \<open>buf\<close> the bytes above \<open>offset\<close> and no line boundary seen in
  them, finds the last line of the whole data with all its trailing newlines trimmed.
\<close>

lemma ReadLastLine_loop_finds:
  assumes "offset \<le> length data" "buf = drop offset data"
    "newline \<notin> set (TrimRight buf newline)"
  shows "fst (ReadLastLine_loop data offset buf) = last_line (TrimRight data newline)"
  using assms
proof (induction data offset buf rule: ReadLastLine_loop.induct)
  case (1 data offset buf)
  show ?case
  proof (cases "offset > 0")
    case False
    then have "buf = data" using "1.prems" by simp
    then show ?thesis
      using False "1.prems"(3)
      by (subst ReadLastLine_loop.simps) (simp add: last_line_no_newline)
  next
    case True
    define readSize where "readSize = (if 4096 > offset then offset else 4096)"
    define offset' where "offset' = offset - readSize"
    define buf' where "buf' = take readSize (drop offset' data) @ buf"
    have rs: "readSize \<le> offset" "0 < readSize"
      using True by (auto simp: readSize_def)
    have o': "offset' \<le> length data" "offset' + readSize = offset"
      using rs "1.prems"(1) by (auto simp: offset'_def)
    have "drop readSize (drop offset' data) = drop offset data"
      using o'(2) by (simp add: add.commute)
    then have "take readSize (drop offset' data) @ drop offset data = drop offset' data"
      using append_take_drop_id [of readSize "drop offset' data"] by simp
    then have b': "buf' = drop offset' data"
      using "1.prems"(2) by (simp add: buf'_def)
    have split: "data = take offset' data @ buf'"
      by (simp add: b')
    note step = ReadLastLine_loop_step [OF True readSize_def offset'_def buf'_def]
    show ?thesis
    proof (cases "LastIndexByte (TrimRight buf' newline) newline")
      case None
      then have nn: "newline \<notin> set (TrimRight buf' newline)"
        by (simp add: LastIndexByte_None_iff)
      have "fst (ReadLastLine_loop data offset' buf') = last_line (TrimRight data newline)"
        using True readSize_def offset'_def _ buf'_def _ None o'(1) b' nn
        by (rule "1.IH") simp_all
      then show ?thesis
        using None by (simp add: step)
    next
      case (Some i)
      then have isin: "newline \<in> set (TrimRight buf' newline)"
        using LastIndexByte_None_iff [of "TrimRight buf' newline" newline] by simp
      then have ne: "TrimRight buf' newline \<noteq> []" by auto
      have "TrimRight data newline = take offset' data @ TrimRight buf' newline"
        by (subst split) (rule TrimRight_append [OF ne])
      then have "last_line (TrimRight data newline) = last_line (TrimRight buf' newline)"
        using isin by (simp add: last_line_append)
      then show ?thesis
        using Some LastIndexByte_Some_drop [OF Some] by (simp add: step)
    qed
  qed
qed

lemma TrimRight_suffix_newline:
  assumes "newline \<in> set (TrimRight s newline)"
  shows "newline \<in> set (TrimRight (p @ s) newline)"
proof -
  have "TrimRight s newline \<noteq> []" using assms by auto
  then have "TrimRight (p @ s) newline = p @ TrimRight s newline"
    by (rule TrimRight_append)
  then show ?thesis using assms by simp
qed

text \<open>
  How much the loop reads: when the last \<open>m\<close> bytes of the data already show a line
  boundary, the loop stops less than one chunk of 4096 bytes beyond them.
\<close>

lemma ReadLastLine_loop_reads:
  assumes "offset \<le> length data" "buf = drop offset data"
    "newline \<notin> set (TrimRight buf newline)"
    "m \<le> length data"
    "newline \<in> set (TrimRight (drop (length data - m) data) newline)"
  shows "length data - snd (ReadLastLine_loop data offset buf) < m + 4096"
  using assms
proof (induction data offset buf rule: ReadLastLine_loop.induct)
  case (1 data offset buf)
  have far: "length data - offset < m"
  proof (rule ccontr)
    assume "\<not> length data - offset < m"
    then have le: "offset \<le> length data - m" using "1.prems"(1,4) by linarith
    have "drop offset data
        = take (length data - m - offset) (drop offset data)
          @ drop (length data - m - offset) (drop offset data)"
      by (rule append_take_drop_id [symmetric])
    also have "drop (length data - m - offset) (drop offset data) = drop (length data - m) data"
    proof -
      have k: "length data - m - offset + offset = length data - m"
        using le by linarith
      show ?thesis by (simp only: drop_drop k)
    qed
    finally have "newline \<in> set (TrimRight (drop offset data) newline)"
      using TrimRight_suffix_newline [OF "1.prems"(5)] by metis
    then show False using "1.prems"(2,3) by simp
  qed
  show ?case
  proof (cases "offset > 0")
    case False
    then show ?thesis using far "1.prems"(4) by simp
  next
    case True
    define readSize where "readSize = (if 4096 > offset then offset else 4096)"
    define offset' where "offset' = offset - readSize"
    define buf' where "buf' = take readSize (drop offset' data) @ buf"
    have rs: "readSize \<le> offset" "0 < readSize" "readSize \<le> 4096"
      using True by (auto simp: readSize_def)
    have o': "offset' \<le> length data" "offset' + readSize = offset"
      using rs "1.prems"(1) by (auto simp: offset'_def)
    have "drop readSize (drop offset' data) = drop offset data"
      using o'(2) by (simp add: add.commute)
    then have "take readSize (drop offset' data) @ drop offset data = drop offset' data"
      using append_take_drop_id [of readSize "drop offset' data"] by simp
    then have b': "buf' = drop offset' data"
      using "1.prems"(2) by (simp add: buf'_def)
    note step = ReadLastLine_loop_step [OF True readSize_def offset'_def buf'_def]
    show ?thesis
    proof (cases "LastIndexByte (TrimRight buf' newline) newline")
      case None
      then have nn: "newline \<notin> set (TrimRight buf' newline)"
        by (simp add: LastIndexByte_None_iff)
      have "length data - snd (ReadLastLine_loop data offset' buf') < m + 4096"
        using True readSize_def offset'_def _ buf'_def _ None o'(1) b' nn "1.prems"(4,5)
        by (rule "1.IH") simp_all
      then show ?thesis
        using None by (simp add: step)
    next
      case (Some i)
      have "length data - offset' < m + 4096"
        using far rs o' "1.prems"(1) by linarith
      then show ?thesis
        using Some by (simp add: step)
    qed
  qed
qed

lemma ReadLastLine_eq:
  assumes "fs filePath = Some f"
  shows "ReadLastLine fs filePath = last_line (TrimRight (content f) newline)"
proof (cases "content f = []")
  case True
  then show ?thesis
    using assms by (simp add: ReadLastLine_def TrimRight_def last_line_def)
next
  case False
  have "fst (ReadLastLine_loop (content f) (length (content f)) [])
      = last_line (TrimRight (content f) newline)"
    by (rule ReadLastLine_loop_finds) (simp_all add: TrimRight_def)
  then show ?thesis
    using assms False by (simp add: ReadLastLine_def)
qed

text \<open>
  Claim C5, as the code has it. A file that cannot be opened and an empty file give
  the empty string. A file with no newline gives its whole content. In general
  \<open>ReadLastLine\<close> returns the last line of the content with \<^emph>\<open>every\<close> trailing newline
  trimmed, which is the last non-empty line of the file; no newline is ever part of
  the result. The file is read backward in chunks of 4096 bytes, and when its last
  \<open>m\<close> bytes already show the line boundary, fewer than \<open>m + 4096\<close> bytes are read.
\<close>

theorem ReadLastLine_last_nonempty_line:
  "(fs filePath = None \<longrightarrow> ReadLastLine fs filePath = []) \<and>
   (fs filePath = Some f \<longrightarrow>
      (content f = [] \<longrightarrow> ReadLastLine fs filePath = []) \<and>
      (newline \<notin> set (content f) \<longrightarrow> ReadLastLine fs filePath = content f) \<and>
      ReadLastLine fs filePath = last_line (TrimRight (content f) newline) \<and>
      newline \<notin> set (ReadLastLine fs filePath) \<and>
      (m \<le> length (content f) \<and>
       newline \<in> set (TrimRight (drop (length (content f) - m) (content f)) newline) \<longrightarrow>
         length (content f)
           - snd (ReadLastLine_loop (content f) (length (content f)) []) < m + 4096))"
proof (intro conjI impI)
  show "ReadLastLine fs filePath = []" if "fs filePath = None"
    using that by (simp add: ReadLastLine_def)
  show "ReadLastLine fs filePath = []" if "fs filePath = Some f" "content f = []"
    using that by (simp add: ReadLastLine_def)
  show "ReadLastLine fs filePath = content f"
    if "fs filePath = Some f" "newline \<notin> set (content f)"
    using that by (simp add: ReadLastLine_eq TrimRight_no_newline last_line_no_newline)
  show "ReadLastLine fs filePath = last_line (TrimRight (content f) newline)"
    if "fs filePath = Some f"
    using that by (rule ReadLastLine_eq)
  show "newline \<notin> set (ReadLastLine fs filePath)" if "fs filePath = Some f"
    using that by (simp add: ReadLastLine_eq last_line_newline_free)
  show "length (content f)
           - snd (ReadLastLine_loop (content f) (length (content f)) []) < m + 4096"
    if "fs filePath = Some f"
      "m \<le> length (content f) \<and>
       newline \<in> set (TrimRight (drop (length (content f) - m) (content f)) newline)"
    using that(2) by (intro ReadLastLine_loop_reads) (simp_all add: TrimRight_def)
qed

lemma three_lines_last:
  \<open>last_line (TrimRight three_lines newline) = ''{"type":"progress"}''\<close>
  by (simp add: three_lines_def TrimRight_def last_line_def newline_def)

text \<open>
  A transcript of three lines, the last one ended by a newline: the third line is
  returned, without the newline.
\<close>

theorem ReadLastLine_witness:
  \<open>ReadLastLine (\<lambda>p. if p = ''t.jsonl'' then Some \<lparr>content = three_lines, modTime = 0\<rparr> else None)
     ''t.jsonl'' = ''{"type":"progress"}'' \<and>
   ReadLastLine (\<lambda>p. if p = ''t.jsonl'' then Some \<lparr>content = three_lines, modTime = 0\<rparr> else None)
     ''missing.jsonl'' = []\<close>
  using ReadLastLine_last_nonempty_line
    [of "\<lambda>p. if p = ''t.jsonl'' then Some \<lparr>content = three_lines, modTime = 0\<rparr> else None"
       "''t.jsonl''" "\<lparr>content = three_lines, modTime = 0\<rparr>" 0]
    ReadLastLine_last_nonempty_line
    [of "\<lambda>p. if p = ''t.jsonl'' then Some \<lparr>content = three_lines, modTime = 0\<rparr> else None"
       "''missing.jsonl''" "\<lparr>content = three_lines, modTime = 0\<rparr>" 0]
  by (simp add: three_lines_last)

text \<open>
  The claim as stated, with a single trailing newline trimmed, fails on a file that
  ends in two newlines: its last line is then empty, and \<open>ReadLastLine\<close> returns the
  line before.
\<close>

theorem ReadLastLine_single_newline_counterexample:
  "ReadLastLine (\<lambda>p. if p = ''t.jsonl'' then Some \<lparr>content = two_newlines, modTime = 0\<rparr> else None)
     ''t.jsonl'' = ''b'' \<and>
   last_line (trim_one_newline two_newlines) = [] \<and>
   ReadLastLine (\<lambda>p. if p = ''t.jsonl'' then Some \<lparr>content = two_newlines, modTime = 0\<rparr> else None)
     ''t.jsonl'' \<noteq> last_line (trim_one_newline two_newlines)"
proof -
  have a: "ReadLastLine
      (\<lambda>p. if p = ''t.jsonl'' then Some \<lparr>content = two_newlines, modTime = 0\<rparr> else None)
      ''t.jsonl'' = last_line (TrimRight two_newlines newline)"
    by (subst ReadLastLine_eq [where f = "\<lparr>content = two_newlines, modTime = 0\<rparr>"]) simp_all
  have b: "last_line (TrimRight two_newlines newline) = ''b''"
    by (simp add: two_newlines_def TrimRight_def last_line_def newline_def)
  have c: "last_line (trim_one_newline two_newlines) = []"
    by (simp add: two_newlines_def trim_one_newline_def last_line_def newline_def)
  show ?thesis
    by (simp add: a b c)
qed

end
